theory Spec2Isabelle
  imports Complex_Main "HOL-Library.Word"
begin

section \<open>Numbers, points and classification results\<close>

text \<open>
  A landmark coordinate is a JavaScript number. Finite values are modelled as reals
  (rounding and overflow of the double format are left out); the three non-finite
  values are kept, with the comparison and arithmetic rules of the language: every
  comparison with \<open>NaN\<close> is false, \<open>Infinity - Infinity\<close> is \<open>NaN\<close>, and so on.
\<close>

datatype num = Fin real | PInf | NInf | NaN

fun num_lt :: "num \<Rightarrow> num \<Rightarrow> bool" where
  "num_lt (Fin a) (Fin b) = (a < b)"
| "num_lt (Fin a) PInf = True"
| "num_lt NInf (Fin b) = True"
| "num_lt NInf PInf = True"
| "num_lt _ _ = False"

definition num_gt :: "num \<Rightarrow> num \<Rightarrow> bool" where
  "num_gt a b = num_lt b a"

fun num_sub :: "num \<Rightarrow> num \<Rightarrow> num" where
  "num_sub (Fin a) (Fin b) = Fin (a - b)"
| "num_sub NaN _ = NaN"
| "num_sub _ NaN = NaN"
| "num_sub PInf PInf = NaN"
| "num_sub NInf NInf = NaN"
| "num_sub PInf _ = PInf"
| "num_sub NInf _ = NInf"
| "num_sub (Fin a) PInf = NInf"
| "num_sub (Fin a) NInf = PInf"

fun num_add :: "num \<Rightarrow> num \<Rightarrow> num" where
  "num_add (Fin a) (Fin b) = Fin (a + b)"
| "num_add NaN _ = NaN"
| "num_add _ NaN = NaN"
| "num_add PInf NInf = NaN"
| "num_add NInf PInf = NaN"
| "num_add PInf _ = PInf"
| "num_add NInf _ = NInf"
| "num_add (Fin a) PInf = PInf"
| "num_add (Fin a) NInf = NInf"

text \<open>\<open>Math.pow(v, 2)\<close> and \<open>Math.sqrt(v)\<close>.\<close>

fun num_pow2 :: "num \<Rightarrow> num" where
  "num_pow2 (Fin a) = Fin (a ^ 2)"
| "num_pow2 PInf = PInf"
| "num_pow2 NInf = PInf"
| "num_pow2 NaN = NaN"

fun num_sqrt :: "num \<Rightarrow> num" where
  "num_sqrt (Fin a) = (if a < 0 then NaN else Fin (sqrt a))"
| "num_sqrt PInf = PInf"
| "num_sqrt NInf = NaN"
| "num_sqrt NaN = NaN"

record point =
  x :: num
  y :: num
  z :: num

record result =
  gesture :: string
  confidence :: real

text \<open>
  Reading a property of \<open>undefined\<close> raises a \<open>TypeError\<close>; the classifiers can fail
  in no other way. A classifier returns the error, \<open>null\<close> (\<open>None\<close>) or a result.
\<close>

datatype error = TypeError

definition bindE :: "error + 'a \<Rightarrow> ('a \<Rightarrow> error + 'b) \<Rightarrow> error + 'b" where
  "bindE m f = (case m of Inl e \<Rightarrow> Inl e | Inr v \<Rightarrow> f v)"

text \<open>\<open>p && q\<close>: \<open>q\<close> is evaluated only when \<open>p\<close> is true.\<close>

definition andE :: "error + bool \<Rightarrow> error + bool \<Rightarrow> error + bool" where
  "andE p q = bindE p (\<lambda>b. if b then q else Inr False)"

text \<open>\<open>points[i]\<close> is \<open>undefined\<close> beyond the end of the array.\<close>

definition pointAt :: "point list \<Rightarrow> nat \<Rightarrow> point option" where
  "pointAt points i = (if i < length points then Some (points ! i) else None)"

definition getX :: "point option \<Rightarrow> error + num" where
  "getX p = (case p of None \<Rightarrow> Inl TypeError | Some q \<Rightarrow> Inr (x q))"

definition getY :: "point option \<Rightarrow> error + num" where
  "getY p = (case p of None \<Rightarrow> Inl TypeError | Some q \<Rightarrow> Inr (y q))"

text \<open>\<open>points[i].y < points[j].y\<close> and \<open>points[i].y > points[j].y\<close>.\<close>

definition yLess :: "point list \<Rightarrow> nat \<Rightarrow> nat \<Rightarrow> error + bool" where
  "yLess points i j =
     bindE (getY (pointAt points i)) (\<lambda>a. bindE (getY (pointAt points j)) (\<lambda>b. Inr (num_lt a b)))"

definition yGreater :: "point list \<Rightarrow> nat \<Rightarrow> nat \<Rightarrow> error + bool" where
  "yGreater points i j =
     bindE (getY (pointAt points i)) (\<lambda>a. bindE (getY (pointAt points j)) (\<lambda>b. Inr (num_gt a b)))"

text \<open>The Euclidean distance of two points in the x/y plane, as both classifiers write it.\<close>

definition distanceXY :: "point option \<Rightarrow> point option \<Rightarrow> error + num" where
  "distanceXY p q =
     bindE (getX p) (\<lambda>px. bindE (getX q) (\<lambda>qx.
     bindE (getY p) (\<lambda>py. bindE (getY q) (\<lambda>qy.
       Inr (num_sqrt (num_add (num_pow2 (num_sub px qx)) (num_pow2 (num_sub py qy))))))))"

section \<open>The static gesture classifier\<close>

definition otherFingersDown :: "point list \<Rightarrow> error + bool" where
  "otherFingersDown points =
     andE (yGreater points 8 6) (andE (yGreater points 12 10)
       (andE (yGreater points 16 14) (yGreater points 20 18)))"

definition allFingersUp :: "point list \<Rightarrow> error + bool" where
  "allFingersUp points =
     andE (yLess points 8 6) (andE (yLess points 12 10)
       (andE (yLess points 16 14) (yLess points 20 18)))"

definition thumbUp :: "point list \<Rightarrow> error + bool" where
  "thumbUp points = andE (yLess points 4 3) (yLess points 4 2)"

definition peaceSign :: "point list \<Rightarrow> error + bool" where
  "peaceSign points =
     andE (yLess points 8 6) (andE (yLess points 12 10)
       (andE (yGreater points 16 14) (yGreater points 20 18)))"

definition pointing :: "point list \<Rightarrow> error + bool" where
  "pointing points =
     andE (yLess points 8 6) (andE (yGreater points 12 10)
       (andE (yGreater points 16 14) (yGreater points 20 18)))"

definition thumbIndexDistance :: "point list \<Rightarrow> error + num" where
  "thumbIndexDistance points = distanceXY (pointAt points 4) (pointAt points 8)"

definition analyzeStaticGesture :: "point list \<Rightarrow> error + result option" where
  "analyzeStaticGesture points =
     bindE (andE (thumbUp points) (otherFingersDown points)) (\<lambda>thumbsUp.
       if thumbsUp then Inr (Some \<lparr>gesture = ''Thumbs Up'', confidence = 92\<rparr>)
       else bindE (peaceSign points) (\<lambda>peace.
         if peace then Inr (Some \<lparr>gesture = ''Peace Sign'', confidence = 88\<rparr>)
         else bindE (pointing points) (\<lambda>point.
           if point then Inr (Some \<lparr>gesture = ''Pointing'', confidence = 85\<rparr>)
           else bindE (allFingersUp points) (\<lambda>up.
             if up then Inr (Some \<lparr>gesture = ''Open Palm'', confidence = 83\<rparr>)
             else bindE (otherFingersDown points) (\<lambda>down.
               if down then Inr (Some \<lparr>gesture = ''Fist'', confidence = 80\<rparr>)
               else bindE (thumbIndexDistance points) (\<lambda>d.
                 if num_lt d (Fin 0.05)
                 then Inr (Some \<lparr>gesture = ''OK Hand'', confidence = 90\<rparr>)
                 else Inr None))))))"

section \<open>The tracking gesture classifier\<close>

text \<open>
  The loop over \<open>fingertips\<close> adds the distances of neighbouring entries. The array of
  fingertips is built without reading any property, so a missing point only raises
  when the loop reaches it.
\<close>

fun spreadLoop :: "point option list \<Rightarrow> num \<Rightarrow> error + num" where
  "spreadLoop (p # q # rest) totalSpread =
     bindE (distanceXY p q) (\<lambda>distance. spreadLoop (q # rest) (num_add totalSpread distance))"
| "spreadLoop _ totalSpread = Inr totalSpread"

definition fingertips :: "point list \<Rightarrow> point option list" where
  "fingertips points = [pointAt points 8, pointAt points 12, pointAt points 16, pointAt points 20]"

definition analyzeTrackingGesture :: "point list \<Rightarrow> error + result option" where
  "analyzeTrackingGesture points =
     bindE (spreadLoop (fingertips points) (Fin 0)) (\<lambda>totalSpread.
       if num_lt totalSpread (Fin 0.15) then Inr (Some \<lparr>gesture = ''Pinch'', confidence = 87\<rparr>)
       else if num_gt totalSpread (Fin 0.4) then Inr (Some \<lparr>gesture = ''Spread'', confidence = 85\<rparr>)
       else Inr None)"

section \<open>The dynamic gesture classifier\<close>

text \<open>
  An \<open>ImageData\<close> holds four bytes (red, green, blue, alpha) for each pixel, row by row.
  Reading a byte array beyond its end gives \<open>undefined\<close>, and arithmetic on it gives
  \<open>NaN\<close>: \<open>None\<close> below. Sums of bytes are modelled as reals.
\<close>

record imageData =
  data :: "8 word list"
  width :: nat
  height :: nat

record motion =
  motionMagnitude :: real
  horizontalMotion :: real
  verticalMotion :: real

definition channel :: "8 word list \<Rightarrow> nat \<Rightarrow> real option" where
  "channel d i = (if i < length d then Some (real (unat (d ! i))) else None)"

definition grayAt :: "8 word list \<Rightarrow> nat \<Rightarrow> real option" where
  "grayAt d i =
     (case channel d i of None \<Rightarrow> None | Some r \<Rightarrow>
       (case channel d (i + 1) of None \<Rightarrow> None | Some g \<Rightarrow>
         (case channel d (i + 2) of None \<Rightarrow> None | Some b \<Rightarrow> Some ((r + g + b) / 3))))"

text \<open>
  The direction analysis of one moving pixel. With \<open>width = 0\<close> the column \<open>x\<close> is
  \<open>NaN\<close> and the row \<open>y\<close> is \<open>NaN\<close> for the first pixel and \<open>Infinity\<close> for the others.
\<close>

definition horizontalStep :: "imageData \<Rightarrow> nat \<Rightarrow> real \<Rightarrow> real \<Rightarrow> real" where
  "horizontalStep current i diff h =
     (if width current = 0 then h
      else let x = (i div 4) mod width current;
               h1 = (if real x > real (width current) * 0.6 then h + diff else h)
           in (if real x < real (width current) * 0.4 then h1 - diff else h1))"

definition verticalStep :: "imageData \<Rightarrow> nat \<Rightarrow> real \<Rightarrow> real \<Rightarrow> real" where
  "verticalStep current i diff v =
     (if width current = 0 then (if i div 4 = 0 then v else v + diff)
      else let y = (i div 4) div width current;
               v1 = (if real y > real (height current) * 0.6 then v + diff else v)
           in (if real y < real (height current) * 0.4 then v1 - diff else v1))"

definition motionStep :: "real \<Rightarrow> imageData \<Rightarrow> imageData \<Rightarrow> motion \<Rightarrow> nat \<Rightarrow> motion" where
  "motionStep threshold current previous m i =
     (case grayAt (data current) i of None \<Rightarrow> m | Some currGray \<Rightarrow>
       (case grayAt (data previous) i of None \<Rightarrow> m | Some prevGray \<Rightarrow>
          (let diff = \<bar>currGray - prevGray\<bar>
           in if diff > threshold
              then \<lparr>motionMagnitude = motionMagnitude m + diff,
                    horizontalMotion = horizontalStep current i diff (horizontalMotion m),
                    verticalMotion = verticalStep current i diff (verticalMotion m)\<rparr>
              else m)))"

text \<open>The values of \<open>i\<close> in \<open>for (let i = 0; i < n; i += 4)\<close>.\<close>

definition pixelOffsets :: "nat \<Rightarrow> nat list" where
  "pixelOffsets n = map (\<lambda>k. 4 * k) [0..<(n + 3) div 4]"

definition motionVectors :: "real \<Rightarrow> imageData \<Rightarrow> imageData \<Rightarrow> motion" where
  "motionVectors threshold current previous =
     foldl (motionStep threshold current previous)
       \<lparr>motionMagnitude = 0, horizontalMotion = 0, verticalMotion = 0\<rparr>
       (pixelOffsets (length (data current)))"

definition classifyMotion :: "motion \<Rightarrow> result option" where
  "classifyMotion m =
     (if motionMagnitude m > 1000
      then (if \<bar>horizontalMotion m\<bar> > \<bar>verticalMotion m\<bar>
            then Some \<lparr>gesture = (if horizontalMotion m > 0 then ''Swipe Right'' else ''Swipe Left''),
                       confidence = min 85 (60 + motionMagnitude m / 100)\<rparr>
            else Some \<lparr>gesture = (if verticalMotion m > 0 then ''Swipe Down'' else ''Swipe Up''),
                       confidence = min 85 (60 + motionMagnitude m / 100)\<rparr>)
      else None)"

definition analyzeDynamicGesture :: "real \<Rightarrow> imageData list \<Rightarrow> result option" where
  "analyzeDynamicGesture threshold frames =
     (if length frames < 3 then None
      else let current = frames ! (length frames - 1);
               previous = frames ! (length frames - 2)
           in classifyMotion (motionVectors threshold current previous))"

section \<open>The session state and the arbiter\<close>

text \<open>
  The state of the component is a record, and a function that calls state setters
  returns the record it leaves. The detection method is one of three string literals;
  \<open>confidence\<close> of the state is \<open>shownConfidence\<close> here, the name being taken by the
  field of a result. Notifications shown to the user are left out.

  The functions of the component are callbacks: a callback reads the state variables
  as they were when it was created, and it is created again only when one of its
  listed dependencies changes. An update \<open>setX(prev => ...)\<close> acts on the state at
  the time of the call. So a callback takes two sessions: \<open>seen\<close>, the state it was
  created in, for everything it reads, and the current one, which it updates.
  \<open>analyzeGesture\<close> depends on the frame buffer, the detection method and learning
  mode; the callbacks it calls were created with it, the motion threshold and the
  custom gestures they read being those of \<open>seen\<close> too.
\<close>

datatype detection = Manual | FrameDiff | ObjectDetection

record stats =
  gesturesDetected :: nat
  accuracy :: int
  sessionTime :: nat

record historyEntry = result +
  timestamp :: nat

record session =
  isRecording :: bool
  recognizedGesture :: "string option"
  shownConfidence :: real
  sessionStats :: stats
  detectionMethod :: detection
  gestureHistory :: "historyEntry list"
  isLearningMode :: bool
  customGestures :: "string list"
  backgroundSubtraction :: bool
  motionThreshold :: real
  gestureSequence :: "string list"
  frameBuffer :: "imageData list"

text \<open>An entry of \<open>landmarks\<close>: an object whose \<open>landmarks\<close> property may be missing.\<close>

record hand =
  landmarks :: "point list option"

definition maxFrameBuffer :: nat where
  "maxFrameBuffer = 10"

text \<open>
  Storing the frame: the capacity test reads \<open>frameBuffer.length\<close> of the callback,
  the update acts on the current buffer \<open>prev\<close>.
\<close>

definition storeFrame :: "session \<Rightarrow> imageData option \<Rightarrow> session \<Rightarrow> session" where
  "storeFrame seen frameData s =
     (case frameData of
        None \<Rightarrow> s
      | Some f \<Rightarrow>
          if length (frameBuffer seen) \<ge> maxFrameBuffer
          then s\<lparr>frameBuffer := drop 1 (frameBuffer s) @ [f]\<rparr>
          else s\<lparr>frameBuffer := frameBuffer s @ [f]\<rparr>)"

text \<open>
  \<open>addCustomGesture\<close>: the membership test reads \<open>customGestures\<close> of the callback,
  the update appends to the current list \<open>prev\<close>.
\<close>

definition addCustomGesture :: "session \<Rightarrow> string \<Rightarrow> session \<Rightarrow> session" where
  "addCustomGesture seen g s =
     (if g \<notin> set (customGestures seen) then s\<lparr>customGestures := customGestures s @ [g]\<rparr> else s)"

text \<open>
  The pair \<open>(gestureResult, confidence)\<close> of the arbiter, and the replacement of the
  winner by a classifier's result of strictly greater confidence.
\<close>

type_synonym winner = "string option \<times> real"

definition override :: "result option \<Rightarrow> winner \<Rightarrow> winner" where
  "override r w =
     (case r of
        None \<Rightarrow> w
      | Some g \<Rightarrow> if confidence g > snd w then (Some (gesture g), confidence g) else w)"

text \<open>
  Learning mode: \<open>gestureResult\<close> is a label of a classifier when it is set, so it
  is truthy exactly when it is set.
\<close>

definition learn :: "session \<Rightarrow> winner \<Rightarrow> session \<Rightarrow> session" where
  "learn seen w s =
     (case fst w of
        None \<Rightarrow> s
      | Some g \<Rightarrow> if isLearningMode seen \<and> snd w > 70 then addCustomGesture seen g s else s)"

definition winnerResult :: "winner \<Rightarrow> result option" where
  "winnerResult w =
     (case fst w of None \<Rightarrow> None | Some g \<Rightarrow> Some \<lparr>gesture = g, confidence = snd w\<rparr>)"

text \<open>
  The selection of the winner in \<open>analyzeGesture\<close>: the static result first, then the
  dynamic or the tracking classifier according to the detection method. All it reads
  is of the state the callback was created in.
\<close>

definition arbitrate :: "session \<Rightarrow> point list \<Rightarrow> error + winner" where
  "arbitrate seen points =
     bindE (analyzeStaticGesture points) (\<lambda>staticGesture.
       let w0 = (case staticGesture of
                   None \<Rightarrow> (None, 0)
                 | Some g \<Rightarrow> (Some (gesture g), confidence g));
           w1 = (if detectionMethod seen = FrameDiff \<and> length (frameBuffer seen) \<ge> 3
                 then override (analyzeDynamicGesture (motionThreshold seen) (frameBuffer seen)) w0
                 else w0)
       in (if detectionMethod seen = ObjectDetection
           then bindE (analyzeTrackingGesture points) (\<lambda>trackingGesture.
                  Inr (override trackingGesture w1))
           else Inr w1))"

text \<open>
  \<open>analyzeGesture\<close> returns what the call returns (or the error it raises) and the
  session after the state updates it made: the frame is stored before the classifiers
  run, a custom gesture is learnt after them.
\<close>

definition analyzeGesture ::
  "session \<Rightarrow> session \<Rightarrow> hand list \<Rightarrow> imageData option
     \<Rightarrow> (error + result option) \<times> session" where
  "analyzeGesture seen s hands frameData =
     (case hands of
        [] \<Rightarrow> (Inr None, s)
      | h # _ \<Rightarrow>
          (case landmarks h of
             None \<Rightarrow> (Inr None, s)
           | Some points \<Rightarrow>
               let s1 = storeFrame seen frameData s
               in (case arbitrate seen points of
                     Inl e \<Rightarrow> (Inl e, s1)
                   | Inr w \<Rightarrow> (Inr (winnerResult w), learn seen w s1))))"

text \<open>\<open>prev.slice(-n)\<close>: the last \<open>n\<close> elements, or all of them when there are fewer.\<close>

definition sliceLast :: "nat \<Rightarrow> 'a list \<Rightarrow> 'a list" where
  "sliceLast n xs = drop (length xs - n) xs"

definition acceptGesture :: "result \<Rightarrow> nat \<Rightarrow> session \<Rightarrow> session" where
  "acceptGesture g now s =
     s\<lparr>recognizedGesture := Some (gesture g),
       shownConfidence := confidence g,
       gestureHistory := sliceLast 19 (gestureHistory s)
          @ [\<lparr>gesture = gesture g, confidence = confidence g, timestamp = now\<rparr>],
       gestureSequence := sliceLast 4 (gestureSequence s) @ [gesture g],
       sessionStats := \<lparr>gesturesDetected = gesturesDetected (sessionStats s) + 1,
                         accuracy = round ((real_of_int (accuracy (sessionStats s)) + confidence g) / 2),
                         sessionTime = sessionTime (sessionStats s) + 1\<rparr>\<rparr>"

text \<open>
  The part of \<open>processVideoFrame\<close> after the detector has answered: \<open>detected\<close> is
  \<open>results.landmarks\<close>, \<open>now\<close> the clock. An error raised by the analysis is caught
  and logged; the frame is then skipped. This callback depends on \<open>isRecording\<close> and
  on \<open>analyzeGesture\<close>: \<open>recording\<close> is the flag as it reads it, \<open>seen\<close> the state
  the \<open>analyzeGesture\<close> it calls was created in. Its own updates act on the current
  state.
\<close>

definition processVideoFrame ::
  "bool \<Rightarrow> session \<Rightarrow> hand list \<Rightarrow> nat \<Rightarrow> session \<Rightarrow> session" where
  "processVideoFrame recording seen detected now s =
     (if \<not> recording then s
      else if length detected > 0
      then (case analyzeGesture seen s detected None of
              (Inl e, s1) \<Rightarrow> s1
            | (Inr None, s1) \<Rightarrow> s1
            | (Inr (Some g), s1) \<Rightarrow>
                if gesture g \<noteq> ''Unknown'' then acceptGesture g now s1 else s1)
      else s)"

definition resetSession :: "session \<Rightarrow> session" where
  "resetSession s =
     s\<lparr>sessionStats := \<lparr>gesturesDetected = 0, accuracy = 0, sessionTime = 0\<rparr>,
       recognizedGesture := None,
       shownConfidence := 0,
       gestureHistory := [],
       gestureSequence := [],
       frameBuffer := []\<rparr>"

text \<open>The state of the component when it is mounted.\<close>

definition initialSession :: session where
  "initialSession =
     \<lparr>isRecording = False, recognizedGesture = None, shownConfidence = 0,
      sessionStats = \<lparr>gesturesDetected = 0, accuracy = 0, sessionTime = 0\<rparr>,
      detectionMethod = Manual, gestureHistory = [], isLearningMode = False,
      customGestures = [], backgroundSubtraction = True, motionThreshold = 50,
      gestureSequence = [], frameBuffer = []\<rparr>"

section \<open>Runs of the session\<close>

text \<open>A run of accepted classifications, each with the clock value at its arrival.\<close>

definition entryOf :: "result \<times> nat \<Rightarrow> historyEntry" where
  "entryOf c = \<lparr>gesture = gesture (fst c), confidence = confidence (fst c), timestamp = snd c\<rparr>"

definition acceptAll :: "(result \<times> nat) list \<Rightarrow> session \<Rightarrow> session" where
  "acceptAll cs s = foldl (\<lambda>t c. acceptGesture (fst c) (snd c) t) s cs"




section \<open>The shapes of the specification\<close>

text \<open>
  The finger conditions of the specification, on a hand of 21 points: a finger is
  extended when its tip is above its lower joint on the screen (smaller \<open>y\<close>), curled
  when it is below.
\<close>

definition extended :: "point list \<Rightarrow> nat \<Rightarrow> nat \<Rightarrow> bool" where
  "extended points tip joint = num_lt (y (points ! tip)) (y (points ! joint))"

definition curled :: "point list \<Rightarrow> nat \<Rightarrow> nat \<Rightarrow> bool" where
  "curled points tip joint = num_gt (y (points ! tip)) (y (points ! joint))"

definition fistShape :: "point list \<Rightarrow> bool" where
  "fistShape points =
     (curled points 8 6 \<and> curled points 12 10 \<and> curled points 16 14 \<and> curled points 20 18)"

definition thumbsUpShape :: "point list \<Rightarrow> bool" where
  "thumbsUpShape points = (extended points 4 3 \<and> extended points 4 2 \<and> fistShape points)"

definition peaceShape :: "point list \<Rightarrow> bool" where
  "peaceShape points =
     (extended points 8 6 \<and> extended points 12 10 \<and> curled points 16 14 \<and> curled points 20 18)"

definition pointingShape :: "point list \<Rightarrow> bool" where
  "pointingShape points =
     (extended points 8 6 \<and> curled points 12 10 \<and> curled points 16 14 \<and> curled points 20 18)"

definition openPalmShape :: "point list \<Rightarrow> bool" where
  "openPalmShape points =
     (extended points 8 6 \<and> extended points 12 10 \<and> extended points 16 14 \<and> extended points 20 18)"

definition okHandShape :: "point list \<Rightarrow> bool" where
  "okHandShape points =
     num_lt (num_sqrt (num_add (num_pow2 (num_sub (x (points ! 4)) (x (points ! 8))))
                               (num_pow2 (num_sub (y (points ! 4)) (y (points ! 8))))))
            (Fin 0.05)"

text \<open>The labels of the twelve gestures the specification names.\<close>

definition knownLabels :: "string set" where
  "knownLabels = {''Thumbs Up'', ''Peace Sign'', ''Pointing'', ''Open Palm'', ''Fist'', ''OK Hand'',
                  ''Swipe Right'', ''Swipe Left'', ''Swipe Up'', ''Swipe Down'', ''Pinch'', ''Spread''}"

text \<open>
  The winner of the specification's override rule: a later classifier's result
  replaces the current one exactly when its confidence is strictly greater, no current
  result counting as confidence 0.
\<close>

definition confidenceOf :: "result option \<Rightarrow> real" where
  "confidenceOf r = (case r of None \<Rightarrow> 0 | Some g \<Rightarrow> confidence g)"

definition strictlyGreaterWins :: "result option \<Rightarrow> result option \<Rightarrow> result option" where
  "strictlyGreaterWins current later =
     (case later of
        None \<Rightarrow> current
      | Some g \<Rightarrow> if confidence g > confidenceOf current then Some g else current)"

text \<open>
  An \<open>ImageData\<close> as the browser builds it: at least one pixel in each direction and
  four bytes for each pixel.
\<close>

definition wellFormed :: "imageData \<Rightarrow> bool" where
  "wellFormed f = (0 < width f \<and> 0 < height f \<and> length (data f) = 4 * width f * height f)"

text \<open>
  The motion scenario of the specification: two frames of the same size that differ
  only by a luminance shift of 80 on the right half of the columns (the columns \<open>x\<close>
  with \<open>width \<le> 2 * x\<close>), each of the three colour bytes of such a pixel being 80
  higher in the current frame.
\<close>

definition rightHalfShifted :: "imageData \<Rightarrow> imageData \<Rightarrow> bool" where
  "rightHalfShifted previous current =
     (wellFormed previous \<and> wellFormed current \<and>
      width current = width previous \<and> height current = height previous \<and>
      (\<forall>k \<in> {..<width current * height current}. \<forall>c \<in> {..<3}.
         unat (data current ! (4 * k + c)) =
           unat (data previous ! (4 * k + c)) + (if width current \<le> 2 * (k mod width current) then 80 else 0)))"

text \<open>The number of columns \<open>x\<close> of a frame of width \<open>w\<close> with \<open>x > w * 0.6\<close>.\<close>

definition rightBand :: "nat \<Rightarrow> nat" where
  "rightBand w = w - 1 - 3 * w div 5"

section \<open>Example inputs\<close>

definition pt :: "real \<Rightarrow> real \<Rightarrow> point" where
  "pt a b = \<lparr>x = Fin a, y = Fin b, z = Fin 0\<rparr>"

text \<open>
  A hand with the four fingers extended and the thumb tip on the index tip: the
  joints lie at \<open>y = 0.5\<close>, the five tips at \<open>y = 0.25\<close>.
\<close>

definition palmWithCircle :: "point list" where
  "palmWithCircle =
     [pt 0.5 0.5, pt 0.5 0.5, pt 0.5 0.5, pt 0.5 0.5, pt 0.5 0.25,
      pt 0.5 0.5, pt 0.5 0.5, pt 0.5 0.5, pt 0.5 0.25,
      pt 0.5 0.5, pt 0.5 0.5, pt 0.5 0.5, pt 0.5 0.25,
      pt 0.5 0.5, pt 0.5 0.5, pt 0.5 0.5, pt 0.5 0.25,
      pt 0.5 0.5, pt 0.5 0.5, pt 0.5 0.5, pt 0.5 0.25]"

text \<open>The degenerate hand: 21 points at the origin.\<close>

definition zeroHand :: "point list" where
  "zeroHand = replicate 21 (pt 0 0)"

text \<open>A hand of 21 points whose coordinates are all \<open>NaN\<close>.\<close>

definition nanHand :: "point list" where
  "nanHand = replicate 21 \<lparr>x = NaN, y = NaN, z = NaN\<rparr>"

text \<open>
  A fist (tips at \<open>y = 0.75\<close> below the joints at \<open>y = 0.5\<close>, all at \<open>x = 0.5\<close>) whose
  depth coordinates are not finite.
\<close>

definition fistAt :: "num \<Rightarrow> point list" where
  "fistAt depth =
     (let joint = \<lparr>x = Fin 0.5, y = Fin 0.5, z = depth\<rparr>;
          tip = \<lparr>x = Fin 0.5, y = Fin 0.75, z = depth\<rparr>
      in [joint, joint, joint, joint, tip, joint, joint, joint, tip, joint, joint,
          joint, tip, joint, joint, joint, tip, joint, joint, joint, tip])"

text \<open>Twenty-five accepted classifications, arriving at the clock values 1 to 25.\<close>

definition sampleRun :: "(result \<times> nat) list" where
  "sampleRun = map (\<lambda>i. (\<lparr>gesture = ''Fist'', confidence = 80\<rparr>, i)) [1..<26]"




text \<open>
  A recording session with learning mode on, and a session with the tracking
  classifier selected.
\<close>

definition learningSession :: session where
  "learningSession = initialSession\<lparr>isRecording := True, isLearningMode := True\<rparr>"

text \<open>A detection of one hand, the open palm with the thumb tip on the index tip.\<close>

definition palmHands :: "hand list" where
  "palmHands = [\<lparr>landmarks = Some palmWithCircle\<rparr>]"

definition trackingSession :: session where
  "trackingSession = initialSession\<lparr>detectionMethod := ObjectDetection\<rparr>"

text \<open>
  Two frames of 26 by 1 pixels: a black row, and the same row with the luminance of
  its right half (the columns 13 to 25) raised by 80.
\<close>

definition darkRow :: imageData where
  "darkRow = \<lparr>data = concat (replicate 26 [0, 0, 0, 255]), width = 26, height = 1\<rparr>"

definition halfLitRow :: imageData where
  "halfLitRow =
     \<lparr>data = concat (replicate 13 [0, 0, 0, 255]) @ concat (replicate 13 [80, 80, 80, 255]),
      width = 26, height = 1\<rparr>"


text \<open>
  Two frames of 14 by 2 pixels: a black frame, and the same frame with the luminance
  of its right half (the columns 7 to 13) raised by 80.
\<close>

definition darkFrame :: imageData where
  "darkFrame = \<lparr>data = concat (replicate 28 [0, 0, 0, 255]), width = 14, height = 2\<rparr>"

definition halfLitFrame :: imageData where
  "halfLitFrame =
     \<lparr>data = concat (replicate 2
        (concat (replicate 7 [0, 0, 0, 255]) @ concat (replicate 7 [80, 80, 80, 255]))),
      width = 14, height = 2\<rparr>"


text \<open>A session that is recording.\<close>

definition recordingSession :: session where
  "recordingSession = initialSession\<lparr>isRecording := True\<rparr>"

section \<open>Properties of the history log and of the reset\<close>

lemma sliceLast_snoc: "sliceLast n xs @ [e] = sliceLast (Suc n) (xs @ [e])"
  by (simp add: sliceLast_def Suc_diff_le)

lemma sliceLast_sliceLast:
  assumes "m \<le> n"
  shows "sliceLast m (sliceLast n xs) = sliceLast m xs"
proof -
  from assms have "length xs - (length xs - n + m) + (length xs - n) = length xs - m"
    by arith
  then show ?thesis by (simp add: sliceLast_def)
qed

lemma gestureHistory_acceptGesture:
  "gestureHistory (acceptGesture g now s) = sliceLast 19 (gestureHistory s) @ [entryOf (g, now)]"
  by (simp add: acceptGesture_def entryOf_def)

lemma acceptAll_snoc: "acceptAll (cs @ [c]) s = acceptGesture (fst c) (snd c) (acceptAll cs s)"
  by (simp add: acceptAll_def)

lemma gestureHistory_acceptAll:
  "length (gestureHistory s) \<le> 20 \<Longrightarrow>
   gestureHistory (acceptAll cs s) = sliceLast 20 (gestureHistory s @ map entryOf cs)"
proof (induction cs rule: rev_induct)
  case Nil
  then show ?case by (simp add: acceptAll_def sliceLast_def)
next
  case (snoc c cs)
  have "gestureHistory (acceptAll (cs @ [c]) s)
        = sliceLast 19 (sliceLast 20 (gestureHistory s @ map entryOf cs)) @ [entryOf c]"
    using snoc by (simp add: acceptAll_snoc gestureHistory_acceptGesture)
  also have "\<dots> = sliceLast 19 (gestureHistory s @ map entryOf cs) @ [entryOf c]"
    by (simp add: sliceLast_sliceLast)
  also have "\<dots> = sliceLast 20 (gestureHistory s @ map entryOf (cs @ [c]))"
    using sliceLast_snoc [of 19 "gestureHistory s @ map entryOf cs" "entryOf c"] by simp
  finally show ?case .
qed

text \<open>
  Claim C6. The history log is a bounded first-in-first-out log of capacity 20: from an
  empty log, a run of accepted classifications leaves its last 20 entries, in arrival
  order. After 25 of them the log has length 20 and holds the entries 6 to 25.
\<close>

theorem history_bounded_fifo:
  "gestureHistory s = [] \<Longrightarrow>
     gestureHistory (acceptAll cs s) = sliceLast 20 (map entryOf cs) \<and>
     length (gestureHistory (acceptAll cs s)) \<le> 20 \<and>
     (length cs = 25 \<longrightarrow>
        gestureHistory (acceptAll cs s) = map entryOf (drop 5 cs) \<and>
        length (gestureHistory (acceptAll cs s)) = 20)"
  by (simp add: gestureHistory_acceptAll sliceLast_def drop_map)

theorem history_bounded_fifo_witness:
  "gestureHistory initialSession = [] \<and> length sampleRun = 25 \<and>
   length (gestureHistory (acceptAll sampleRun initialSession)) = 20 \<and>
   map timestamp (gestureHistory (acceptAll sampleRun initialSession)) = [6..<26]"
proof -
  have e: "gestureHistory initialSession = []"
    by (simp add: initialSession_def)
  have l: "length sampleRun = 25"
    by (simp add: sampleRun_def)
  have t: "map timestamp (map entryOf (drop 5 sampleRun)) = [6..<26]"
    by (simp add: sampleRun_def entryOf_def drop_map comp_def)
  from history_bounded_fifo [OF e, of sampleRun] l
  have h: "gestureHistory (acceptAll sampleRun initialSession) = map entryOf (drop 5 sampleRun)"
    by blast
  show ?thesis
    unfolding h using e l t by simp
qed

text \<open>
  Claim C8. The reset sets the session statistics to zero and empties the gesture
  history, the gesture sequence and the frame buffer; it leaves the custom gestures as
  they are.
\<close>

theorem resetSession_clears:
  "sessionStats (resetSession s) = \<lparr>gesturesDetected = 0, accuracy = 0, sessionTime = 0\<rparr> \<and>
   gestureHistory (resetSession s) = [] \<and>
   gestureSequence (resetSession s) = [] \<and>
   frameBuffer (resetSession s) = [] \<and>
   customGestures (resetSession s) = customGestures s"
  by (simp add: resetSession_def)

section \<open>The classifiers on the example hands\<close>

lemmas static_eval = analyzeStaticGesture_def bindE_def andE_def thumbUp_def otherFingersDown_def
  peaceSign_def pointing_def allFingersUp_def thumbIndexDistance_def distanceXY_def yLess_def
  yGreater_def getX_def getY_def pointAt_def num_gt_def

lemmas tracking_eval = analyzeTrackingGesture_def fingertips_def bindE_def distanceXY_def
  getX_def getY_def pointAt_def num_gt_def

lemma static_palmWithCircle:
  "analyzeStaticGesture palmWithCircle = Inr (Some \<lparr>gesture = ''Open Palm'', confidence = 83\<rparr>)"
  by (simp add: static_eval palmWithCircle_def pt_def)

lemma static_fist:
  "analyzeStaticGesture (fistAt d) = Inr (Some \<lparr>gesture = ''Fist'', confidence = 80\<rparr>)"
  by (simp add: static_eval fistAt_def Let_def)

lemma tracking_fist:
  "analyzeTrackingGesture (fistAt d) = Inr (Some \<lparr>gesture = ''Pinch'', confidence = 87\<rparr>)"
  by (simp add: tracking_eval fistAt_def Let_def)

section \<open>Properties of the frame buffer\<close>













section \<open>Properties of the arbiter\<close>

lemma customGestures_storeFrame: "customGestures (storeFrame seen fd s) = customGestures s"
  by (simp add: storeFrame_def split: option.splits)

lemma customGestures_learn:
  "customGestures (learn seen w s) =
     (case fst w of
        None \<Rightarrow> customGestures s
      | Some l \<Rightarrow> if isLearningMode seen \<and> snd w > 70 \<and> l \<notin> set (customGestures seen)
                  then customGestures s @ [l] else customGestures s)"
  by (simp add: learn_def addCustomGesture_def split: option.splits)

lemma winnerResult_Some:
  "winnerResult w = Some g \<Longrightarrow> fst w = Some (gesture g) \<and> snd w = confidence g"
  by (auto simp: winnerResult_def split: option.splits)

lemma analyzeGesture_winner:
  "analyzeGesture seen s hands fd = (Inr r, s') \<Longrightarrow>
   (r = None \<and> s' = s) \<or> (\<exists>w. winnerResult w = r \<and> s' = learn seen w (storeFrame seen fd s))"
  unfolding analyzeGesture_def Let_def
  by (auto split: list.splits option.splits sum.splits)

lemma winnerResult_override:
  "winnerResult w = cur \<Longrightarrow> snd w = confidenceOf cur \<Longrightarrow>
   winnerResult (override later w) = strictlyGreaterWins cur later \<and>
   snd (override later w) = confidenceOf (strictlyGreaterWins cur later)"
  by (auto simp: winnerResult_def override_def strictlyGreaterWins_def confidenceOf_def
      split: option.splits)

text \<open>
  Claim C5. On a first hand with landmarks whose static classification does not raise,
  the arbiter returns the static result under the manual method; under frame
  difference with at least 3 buffered frames, the dynamic result replaces it exactly
  when its confidence is strictly greater; under object detection the tracking result
  replaces it by the same rule (an error of the tracking classifier is passed on).
  The method, the buffer and the threshold are those the callback was created with.
\<close>

theorem arbiter_strictly_greater_override:
  "landmarks h = Some points \<Longrightarrow> analyzeStaticGesture points = Inr st \<Longrightarrow>
   fst (analyzeGesture seen s (h # hs) fd) =
     (case detectionMethod seen of
        Manual \<Rightarrow> Inr st
      | FrameDiff \<Rightarrow>
          Inr (if length (frameBuffer seen) \<ge> 3
               then strictlyGreaterWins st
                      (analyzeDynamicGesture (motionThreshold seen) (frameBuffer seen))
               else st)
      | ObjectDetection \<Rightarrow>
          (case analyzeTrackingGesture points of
             Inl e \<Rightarrow> Inl e
           | Inr tr \<Rightarrow> Inr (strictlyGreaterWins st tr)))"
proof -
  assume l: "landmarks h = Some points" and st: "analyzeStaticGesture points = Inr st"
  define w0 :: winner where
    "w0 = (case st of None \<Rightarrow> (None, 0) | Some g \<Rightarrow> (Some (gesture g), confidence g))"
  have w0: "winnerResult w0 = st" "snd w0 = confidenceOf st"
    by (auto simp: w0_def winnerResult_def confidenceOf_def split: option.splits)
  have ov: "winnerResult (override later w0) = strictlyGreaterWins st later" for later
    using winnerResult_override [OF w0] by simp
  show ?thesis
    using l st w0(1) ov
    by (cases "detectionMethod seen")
       (auto simp: analyzeGesture_def arbitrate_def bindE_def Let_def w0_def [symmetric]
             split: sum.splits)
qed

theorem arbiter_strictly_greater_override_witness:
  "landmarks \<lparr>landmarks = Some (fistAt (Fin 0))\<rparr> = Some (fistAt (Fin 0)) \<and>
   analyzeStaticGesture (fistAt (Fin 0)) = Inr (Some \<lparr>gesture = ''Fist'', confidence = 80\<rparr>) \<and>
   fst (analyzeGesture trackingSession trackingSession [\<lparr>landmarks = Some (fistAt (Fin 0))\<rparr>] None)
     = Inr (Some \<lparr>gesture = ''Pinch'', confidence = 87\<rparr>) \<and>
   fst (analyzeGesture initialSession initialSession [\<lparr>landmarks = Some (fistAt (Fin 0))\<rparr>] None)
     = Inr (Some \<lparr>gesture = ''Fist'', confidence = 80\<rparr>)"
proof -
  have l: "landmarks \<lparr>landmarks = Some (fistAt (Fin 0))\<rparr> = Some (fistAt (Fin 0))"
    by simp
  note t = arbiter_strictly_greater_override
    [OF l static_fist, of trackingSession trackingSession "[]" None]
  note i = arbiter_strictly_greater_override
    [OF l static_fist, of initialSession initialSession "[]" None]
  show ?thesis
    using t i
    by (simp add: static_fist tracking_fist trackingSession_def initialSession_def
        strictlyGreaterWins_def confidenceOf_def)
qed

text \<open>
  What a call of \<open>analyzeGesture\<close> that returns a result does to the custom gestures:
  learning mode and the known labels are those the callback was created with, the
  label is appended to the current list.
\<close>

lemma customGestures_analyzeGesture:
  assumes "analyzeGesture seen s hands fd = (Inr (Some g), s')"
  shows "customGestures s' =
          (if isLearningMode seen \<and> confidence g > 70 \<and> gesture g \<notin> set (customGestures seen)
           then customGestures s @ [gesture g] else customGestures s)"
proof -
  from analyzeGesture_winner [OF assms]
  obtain w where w: "winnerResult w = Some g" and s': "s' = learn seen w (storeFrame seen fd s)"
    by blast
  from winnerResult_Some [OF w] show ?thesis
    by (simp add: s' customGestures_learn customGestures_storeFrame)
qed

lemma analyzeGesture_palmHands:
  assumes "detectionMethod seen = Manual"
  shows "fst (analyzeGesture seen s palmHands None)
      = Inr (Some \<lparr>gesture = ''Open Palm'', confidence = 83\<rparr>)"
  using assms
  by (simp add: analyzeGesture_def arbitrate_def static_palmWithCircle bindE_def Let_def
      palmHands_def winnerResult_def)

lemma learn_palmHands:
  assumes "detectionMethod seen = Manual" and "isLearningMode seen" and "customGestures seen = []"
  shows "customGestures (snd (analyzeGesture seen s palmHands None))
      = customGestures s @ [''Open Palm'']"
proof -
  let ?g = "\<lparr>gesture = ''Open Palm'', confidence = 83\<rparr>"
  have "analyzeGesture seen s palmHands None = (Inr (Some ?g), snd (analyzeGesture seen s palmHands None))"
    using analyzeGesture_palmHands [OF assms(1), of s] by (simp add: prod_eq_iff)
  from customGestures_analyzeGesture [OF this] assms(2,3) show ?thesis
    by simp
qed

text \<open>
  Claim C9. The code does not keep the custom gestures free of repetitions. With
  learning mode on, the open palm is classified with confidence 83 and its label is
  learnt; the same detection in the next frame, analysed by the same callback, is
  learnt again, although the label is in the list by then: the callback tests the
  list it was created with, and it is not created again when the list changes.
\<close>

theorem stale_callback_learns_label_twice:
  "customGestures (snd (analyzeGesture learningSession learningSession palmHands None))
     = [''Open Palm''] \<and>
   customGestures (snd (analyzeGesture learningSession
       (snd (analyzeGesture learningSession learningSession palmHands None)) palmHands None))
     = [''Open Palm'', ''Open Palm''] \<and>
   customGestures (processVideoFrame True learningSession palmHands 2
       (processVideoFrame True learningSession palmHands 1 learningSession))
     = [''Open Palm'', ''Open Palm'']"
proof -
  let ?g = "\<lparr>gesture = ''Open Palm'', confidence = 83\<rparr>"
  have c: "detectionMethod learningSession = Manual" "isLearningMode learningSession"
    "customGestures learningSession = []"
    by (simp_all add: learningSession_def initialSession_def)
  note once = learn_palmHands [OF c]
  have call: "analyzeGesture learningSession s palmHands None
      = (Inr (Some ?g), snd (analyzeGesture learningSession s palmHands None))" for s
    using analyzeGesture_palmHands [OF c(1), of s] by (simp add: prod_eq_iff)
  have frame: "customGestures (processVideoFrame True learningSession palmHands now s)
      = customGestures s @ [''Open Palm'']" for now s
  proof -
    have "processVideoFrame True learningSession palmHands now s
        = acceptGesture ?g now (snd (analyzeGesture learningSession s palmHands None))"
      by (subst processVideoFrame_def, subst call) (simp add: palmHands_def)
    then show ?thesis
      by (simp add: acceptGesture_def once)
  qed
  show ?thesis
    by (simp add: once frame c(3))
qed

section \<open>Properties of the static and the tracking classifier\<close>

lemma pointAt_Some: "i < length ps \<Longrightarrow> pointAt ps i = Some (ps ! i)"
  by (simp add: pointAt_def)

lemma pointAt_None: "length ps \<le> i \<Longrightarrow> pointAt ps i = None"
  by (simp add: pointAt_def)

lemma yLess_extended:
  "i < length ps \<Longrightarrow> j < length ps \<Longrightarrow> yLess ps i j = Inr (extended ps i j)"
  by (simp add: yLess_def extended_def pointAt_Some getY_def bindE_def)

lemma yGreater_curled:
  "i < length ps \<Longrightarrow> j < length ps \<Longrightarrow> yGreater ps i j = Inr (curled ps i j)"
  by (simp add: yGreater_def curled_def pointAt_Some getY_def bindE_def)

lemma andE_Inr: "andE (Inr a) (Inr b) = Inr (a \<and> b)"
  by (simp add: andE_def bindE_def)

lemma bindE_Inr: "bindE (Inr v) f = f v"
  by (simp add: bindE_def)

lemma shapes_total:
  assumes "21 \<le> length ps"
  shows "thumbUp ps = Inr (extended ps 4 3 \<and> extended ps 4 2)"
    and "otherFingersDown ps = Inr (fistShape ps)"
    and "peaceSign ps = Inr (peaceShape ps)"
    and "pointing ps = Inr (pointingShape ps)"
    and "allFingersUp ps = Inr (openPalmShape ps)"
    and "thumbIndexDistance ps = Inr (num_sqrt (num_add
           (num_pow2 (num_sub (x (ps ! 4)) (x (ps ! 8))))
           (num_pow2 (num_sub (y (ps ! 4)) (y (ps ! 8))))))"
  using assms
  by (simp_all add: thumbUp_def otherFingersDown_def peaceSign_def pointing_def allFingersUp_def
      fistShape_def peaceShape_def pointingShape_def openPalmShape_def
      yLess_extended yGreater_curled andE_Inr
      thumbIndexDistance_def distanceXY_def pointAt_Some getX_def getY_def bindE_def)

lemma static_closed_form:
  assumes "21 \<le> length ps"
  shows "analyzeStaticGesture ps = Inr
    (if thumbsUpShape ps then Some \<lparr>gesture = ''Thumbs Up'', confidence = 92\<rparr>
     else if peaceShape ps then Some \<lparr>gesture = ''Peace Sign'', confidence = 88\<rparr>
     else if pointingShape ps then Some \<lparr>gesture = ''Pointing'', confidence = 85\<rparr>
     else if openPalmShape ps then Some \<lparr>gesture = ''Open Palm'', confidence = 83\<rparr>
     else if fistShape ps then Some \<lparr>gesture = ''Fist'', confidence = 80\<rparr>
     else if okHandShape ps then Some \<lparr>gesture = ''OK Hand'', confidence = 90\<rparr>
     else None)"
  by (simp add: analyzeStaticGesture_def shapes_total [OF assms] andE_Inr bindE_Inr
      thumbsUpShape_def okHandShape_def)

text \<open>
  Claim C1, as the code has it. The rules are tried in order and the first match
  returns: on a hand of 21 points with the four fingers extended the classifier
  answers \<open>Open Palm\<close> (83), whatever the distance of thumb tip and index tip. It
  answers \<open>OK Hand\<close> (90) exactly when that distance is below 0.05 and none of the five
  finger rules matches.
\<close>

theorem static_open_palm_before_ok_hand:
  "21 \<le> length points \<Longrightarrow>
     (openPalmShape points \<longrightarrow>
        analyzeStaticGesture points = Inr (Some \<lparr>gesture = ''Open Palm'', confidence = 83\<rparr>)) \<and>
     (analyzeStaticGesture points = Inr (Some \<lparr>gesture = ''OK Hand'', confidence = 90\<rparr>) \<longleftrightarrow>
        okHandShape points \<and> \<not> thumbsUpShape points \<and> \<not> peaceShape points \<and>
        \<not> pointingShape points \<and> \<not> openPalmShape points \<and> \<not> fistShape points)"
proof -
  assume len: "21 \<le> length points"
  have excl: "openPalmShape points \<Longrightarrow>
      \<not> thumbsUpShape points \<and> \<not> peaceShape points \<and> \<not> pointingShape points"
    by (cases "y (points ! 12)"; cases "y (points ! 10)"; cases "y (points ! 16)"; cases "y (points ! 14)")
       (auto simp: openPalmShape_def thumbsUpShape_def peaceShape_def pointingShape_def fistShape_def
         extended_def curled_def num_gt_def)
  show ?thesis
    using excl by (auto simp: static_closed_form [OF len])
qed




lemma static_zeroHand:
  "analyzeStaticGesture zeroHand = Inr (Some \<lparr>gesture = ''OK Hand'', confidence = 90\<rparr>)"
  by (simp add: static_eval zeroHand_def pt_def)

lemma tracking_zeroHand:
  "analyzeTrackingGesture zeroHand = Inr (Some \<lparr>gesture = ''Pinch'', confidence = 87\<rparr>)"
  by (simp add: tracking_eval zeroHand_def pt_def)

lemma shapes_palmWithCircle: "openPalmShape palmWithCircle" "okHandShape palmWithCircle"
  by (simp_all add: openPalmShape_def okHandShape_def extended_def palmWithCircle_def pt_def)

text \<open>
  The hand \<open>palmWithCircle\<close> satisfies the conditions of both \<open>Open Palm\<close> and
  \<open>OK Hand\<close>, and is not classified as \<open>OK Hand\<close>.
\<close>

theorem ok_hand_override_counterexample:
  "openPalmShape palmWithCircle \<and> okHandShape palmWithCircle \<and>
   analyzeStaticGesture palmWithCircle \<noteq> Inr (Some \<lparr>gesture = ''OK Hand'', confidence = 90\<rparr>)"
  by (simp add: shapes_palmWithCircle static_palmWithCircle)

theorem static_open_palm_before_ok_hand_witness:
  "21 \<le> length palmWithCircle \<and> openPalmShape palmWithCircle \<and>
   analyzeStaticGesture palmWithCircle = Inr (Some \<lparr>gesture = ''Open Palm'', confidence = 83\<rparr>)"
proof -
  have l: "21 \<le> length palmWithCircle"
    by (simp add: palmWithCircle_def)
  from static_open_palm_before_ok_hand [OF l] shapes_palmWithCircle(1) l
  show ?thesis by blast
qed

lemma error_cases: "(e = TypeError) = True"
  by (cases e) simp

lemma spreadLoop_total:
  assumes "21 \<le> length ps"
  shows "\<exists>t. spreadLoop (fingertips ps) (Fin 0) = Inr t"
  using assms by (simp add: fingertips_def pointAt_Some distanceXY_def getX_def getY_def bindE_def)

lemma tracking_total:
  assumes "21 \<le> length ps"
  shows "\<exists>r. analyzeTrackingGesture ps = Inr r"
proof -
  from spreadLoop_total [OF assms] obtain t where "spreadLoop (fingertips ps) (Fin 0) = Inr t" ..
  then show ?thesis
    by (simp add: analyzeTrackingGesture_def bindE_def)
qed

lemma distanceXY_None: "distanceXY p None = Inl TypeError" "distanceXY None q = Inl TypeError"
  by (simp_all add: distanceXY_def getX_def getY_def bindE_def split: option.splits)

lemma tracking_short:
  assumes "length ps < 21"
  shows "analyzeTrackingGesture ps = Inl TypeError"
proof -
  have n: "pointAt ps 20 = None"
    using assms by (simp add: pointAt_def)
  have "spreadLoop [p, q, r, None] t = Inl TypeError" for p q r t
    by (cases "distanceXY p q"; cases "distanceXY q r")
       (auto simp: bindE_def distanceXY_None error_cases)
  then show ?thesis
    by (simp add: analyzeTrackingGesture_def fingertips_def n bindE_def)
qed

lemma static_short:
  assumes "length ps \<le> 8"
  shows "analyzeStaticGesture ps = Inl TypeError"
proof -
  have n: "pointAt ps 8 = None"
    using assms by (simp add: pointAt_def)
  have a: "yLess ps 8 j = Inl TypeError" "yGreater ps 8 j = Inl TypeError" for j
    by (simp_all add: yLess_def yGreater_def n getY_def bindE_def)
  have b: "peaceSign ps = Inl TypeError" "otherFingersDown ps = Inl TypeError"
    by (simp_all add: peaceSign_def otherFingersDown_def a andE_def bindE_def)
  show ?thesis
    by (cases "thumbUp ps") (auto simp: analyzeStaticGesture_def b andE_def bindE_def error_cases)
qed

text \<open>
  Claim C2, as the code has it. The classifiers do not validate the hand. With at
  least 21 points neither raises, whatever the coordinates, and both answer \<open>null\<close>
  when every \<open>x\<close> and \<open>y\<close> is \<open>NaN\<close>. With fewer than 21 points the tracking
  classifier raises a \<open>TypeError\<close>; so does the static classifier with at most 8.
\<close>

theorem classifiers_on_malformed_hands:
  "(21 \<le> length points \<longrightarrow>
      (\<exists>r. analyzeStaticGesture points = Inr r) \<and> (\<exists>r. analyzeTrackingGesture points = Inr r)) \<and>
   (21 \<le> length points \<and> (\<forall>p \<in> set points. x p = NaN \<and> y p = NaN) \<longrightarrow>
      analyzeStaticGesture points = Inr None \<and> analyzeTrackingGesture points = Inr None) \<and>
   (length points < 21 \<longrightarrow> analyzeTrackingGesture points = Inl TypeError) \<and>
   (length points \<le> 8 \<longrightarrow> analyzeStaticGesture points = Inl TypeError)"
proof (intro conjI impI)
  show "analyzeTrackingGesture points = Inl TypeError" if "length points < 21"
    using that by (rule tracking_short)
  show "analyzeStaticGesture points = Inl TypeError" if "length points \<le> 8"
    using that by (rule static_short)
  show "\<exists>r. analyzeStaticGesture points = Inr r" if "21 \<le> length points"
    using static_closed_form [OF that] by blast
  show "\<exists>r. analyzeTrackingGesture points = Inr r" if "21 \<le> length points"
    using that by (rule tracking_total)
  assume n: "21 \<le> length points \<and> (\<forall>p \<in> set points. x p = NaN \<and> y p = NaN)"
  then have len: "21 \<le> length points" ..
  have nan: "x (points ! i) = NaN \<and> y (points ! i) = NaN" if "i < 21" for i
    using n that by simp
  show "analyzeStaticGesture points = Inr None"
    by (simp add: static_closed_form [OF len] thumbsUpShape_def peaceShape_def pointingShape_def
        openPalmShape_def fistShape_def okHandShape_def extended_def curled_def num_gt_def nan)
  show "analyzeTrackingGesture points = Inr None"
    using len by (simp add: tracking_eval nan)
qed

text \<open>
  The empty hand makes both classifiers raise, and a fist whose depth coordinates
  are \<open>NaN\<close> is classified by both.
\<close>

theorem malformed_hands_counterexample:
  "length ([] :: point list) < 21 \<and>
   analyzeStaticGesture [] = Inl TypeError \<and> analyzeTrackingGesture [] = Inl TypeError \<and>
   z (fistAt NaN ! 0) = NaN \<and>
   analyzeStaticGesture (fistAt NaN) = Inr (Some \<lparr>gesture = ''Fist'', confidence = 80\<rparr>) \<and>
   analyzeTrackingGesture (fistAt NaN) = Inr (Some \<lparr>gesture = ''Pinch'', confidence = 87\<rparr>)"
  by (simp add: static_short tracking_short static_fist tracking_fist) (simp add: fistAt_def Let_def)


theorem classifiers_on_malformed_hands_witness:
  "21 \<le> length nanHand \<and> set nanHand = {\<lparr>x = NaN, y = NaN, z = NaN\<rparr>} \<and>
   analyzeStaticGesture nanHand = Inr None \<and> analyzeTrackingGesture nanHand = Inr None \<and>
   length ([] :: point list) < 21 \<and> length ([] :: point list) \<le> 8 \<and>
   analyzeStaticGesture [] = Inl TypeError \<and> analyzeTrackingGesture [] = Inl TypeError"
proof -
  have n: "21 \<le> length nanHand \<and> (\<forall>p \<in> set nanHand. x p = NaN \<and> y p = NaN)"
    by (simp add: nanHand_def)
  have e: "set nanHand = {\<lparr>x = NaN, y = NaN, z = NaN\<rparr>}"
    by (simp add: nanHand_def)
  from classifiers_on_malformed_hands [of nanHand] classifiers_on_malformed_hands [of "[]"] n e
  show ?thesis by simp
qed

section \<open>The degenerate hand\<close>

lemma motionStep_same: "motionStep t f f m i = m"
  by (simp add: motionStep_def horizontalStep_def verticalStep_def Let_def split: option.splits)

lemma foldl_motionStep_same: "foldl (motionStep t f f) m is = m"
  by (induction "is") (simp_all add: motionStep_same)

lemma dynamic_still:
  "analyzeDynamicGesture t (older @ [f, f]) = None"
proof -
  have "(older @ [f, f]) ! (length older + 1) = f" "(older @ [f, f]) ! length older = f"
    by (simp_all add: nth_append)
  then show ?thesis
    by (simp add: analyzeDynamicGesture_def motionVectors_def foldl_motionStep_same
        classifyMotion_def Let_def)
qed

text \<open>
  Claim C3, as the code has it. On the hand of 21 points at the origin no classifier
  raises: the static classifier answers \<open>OK Hand\<close> (90), thumb tip and index tip being
  at distance 0, and the tracking classifier answers \<open>Pinch\<close> (87), the spread being 0.
  The dynamic classifier does not read the hand; it answers \<open>null\<close> when the two latest
  frames are equal.
\<close>

theorem degenerate_hand_is_classified:
  "analyzeStaticGesture zeroHand = Inr (Some \<lparr>gesture = ''OK Hand'', confidence = 90\<rparr>) \<and>
   analyzeTrackingGesture zeroHand = Inr (Some \<lparr>gesture = ''Pinch'', confidence = 87\<rparr>) \<and>
   analyzeDynamicGesture threshold (older @ [frame, frame]) = None"
  by (simp add: static_zeroHand tracking_zeroHand dynamic_still)

text \<open>The static and the tracking classifier do not answer \<open>null\<close> on the degenerate hand.\<close>

theorem degenerate_hand_counterexample:
  "zeroHand = replicate 21 \<lparr>x = Fin 0, y = Fin 0, z = Fin 0\<rparr> \<and>
   analyzeStaticGesture zeroHand \<noteq> Inr None \<and> analyzeTrackingGesture zeroHand \<noteq> Inr None"
  by (simp add: static_zeroHand tracking_zeroHand) (simp add: zeroHand_def pt_def)

section \<open>The labels of the classifiers\<close>

lemma static_label:
  "analyzeStaticGesture ps = Inr (Some r) \<Longrightarrow> gesture r \<in> knownLabels"
  unfolding analyzeStaticGesture_def bindE_def knownLabels_def
  by (auto split: sum.splits if_splits)

lemma tracking_label:
  "analyzeTrackingGesture ps = Inr (Some r) \<Longrightarrow> gesture r \<in> knownLabels"
  unfolding analyzeTrackingGesture_def bindE_def knownLabels_def
  by (auto split: sum.splits if_splits)

lemma dynamic_label:
  "analyzeDynamicGesture t frames = Some r \<Longrightarrow> gesture r \<in> knownLabels"
proof -
  assume a: "analyzeDynamicGesture t frames = Some r"
  then obtain m where m: "classifyMotion m = Some r"
    by (cases "length frames < 3") (auto simp: analyzeDynamicGesture_def Let_def)
  then have big: "motionMagnitude m > 1000"
    by (cases "motionMagnitude m > 1000") (simp_all add: classifyMotion_def)
  show ?thesis
  proof (cases "\<bar>horizontalMotion m\<bar> > \<bar>verticalMotion m\<bar>")
    case True
    with m big have "gesture r = (if horizontalMotion m > 0 then ''Swipe Right'' else ''Swipe Left'')"
      by (auto simp: classifyMotion_def)
    then show ?thesis by (simp add: knownLabels_def)
  next
    case False
    with m big have "gesture r = (if verticalMotion m > 0 then ''Swipe Down'' else ''Swipe Up'')"
      by (auto simp: classifyMotion_def)
    then show ?thesis by (simp add: knownLabels_def)
  qed
qed

lemma override_label:
  "(\<And>l. fst w = Some l \<Longrightarrow> l \<in> knownLabels) \<Longrightarrow>
   (\<And>g. r = Some g \<Longrightarrow> gesture g \<in> knownLabels) \<Longrightarrow>
   fst (override r w) = Some l \<Longrightarrow> l \<in> knownLabels"
  by (auto simp: override_def split: option.splits if_splits)

lemma arbitrate_label:
  assumes "arbitrate s ps = Inr w" and "fst w = Some l"
  shows "l \<in> knownLabels"
proof -
  from assms(1) obtain st where st: "analyzeStaticGesture ps = Inr st"
    by (auto simp: arbitrate_def bindE_def split: sum.splits)
  define w0 :: winner where
    "w0 = (case st of None \<Rightarrow> (None, 0) | Some g \<Rightarrow> (Some (gesture g), confidence g))"
  define w1 where "w1 = (if detectionMethod s = FrameDiff \<and> length (frameBuffer s) \<ge> 3
                 then override (analyzeDynamicGesture (motionThreshold s) (frameBuffer s)) w0
                 else w0)"
  have k0: "l \<in> knownLabels" if "fst w0 = Some l" for l
  proof (cases st)
    case None
    with that show ?thesis by (simp add: w0_def)
  next
    case (Some g)
    with that st static_label [of ps g] show ?thesis by (simp add: w0_def)
  qed
  have k1: "l \<in> knownLabels" if f: "fst w1 = Some l" for l
  proof (cases "detectionMethod s = FrameDiff \<and> length (frameBuffer s) \<ge> 3")
    case True
    show ?thesis
    proof (rule override_label [of w0 "analyzeDynamicGesture (motionThreshold s) (frameBuffer s)"])
      show "l \<in> knownLabels" if "fst w0 = Some l" for l
        using that by (rule k0)
      show "gesture g \<in> knownLabels"
        if "analyzeDynamicGesture (motionThreshold s) (frameBuffer s) = Some g" for g
        using that by (rule dynamic_label)
      show "fst (override (analyzeDynamicGesture (motionThreshold s) (frameBuffer s)) w0) = Some l"
        using f True by (simp add: w1_def)
    qed
  next
    case False
    with f have "fst w0 = Some l" by (simp add: w1_def)
    then show ?thesis by (rule k0)
  qed
  show ?thesis
  proof (cases "detectionMethod s = ObjectDetection")
    case True
    with assms(1) st obtain tr where tr: "analyzeTrackingGesture ps = Inr tr" and w: "w = override tr w1"
      by (auto simp: arbitrate_def bindE_def Let_def w0_def w1_def split: sum.splits)
    show ?thesis
    proof (rule override_label [of w1 tr])
      show "l \<in> knownLabels" if "fst w1 = Some l" for l
        using that by (rule k1)
      show "gesture g \<in> knownLabels" if "tr = Some g" for g
        using that tr by (simp add: tracking_label)
      show "fst (override tr w1) = Some l"
        using assms(2) w by simp
    qed
  next
    case False
    with assms(1) st have "w = w1"
      by (auto simp: arbitrate_def bindE_def Let_def w0_def w1_def)
    with k1 assms(2) show ?thesis by simp
  qed
qed

lemma analyzeGesture_label:
  assumes "fst (analyzeGesture seen s hands fd) = Inr (Some r)"
  shows "gesture r \<in> knownLabels"
proof -
  from assms obtain ps w where "arbitrate seen ps = Inr w" and "winnerResult w = Some r"
    by (auto simp: analyzeGesture_def Let_def split: list.splits option.splits sum.splits)
  with arbitrate_label [of seen ps w "gesture r"] winnerResult_Some [of w r] show ?thesis
    by simp
qed

lemma unknown_not_known: "''Unknown'' \<notin> knownLabels"
  by (simp add: knownLabels_def)

lemma processVideoFrame_accepts:
  assumes "recording" and "analyzeGesture seen s hands None = (Inr (Some r), s')"
  shows "processVideoFrame recording seen hands now s = acceptGesture r now s'"
proof -
  from assms(2) have "fst (analyzeGesture seen s hands None) = Inr (Some r)"
    by simp
  then have "gesture r \<in> knownLabels"
    by (rule analyzeGesture_label)
  with unknown_not_known have u: "gesture r \<noteq> ''Unknown''"
    by metis
  from assms(2) have "hands \<noteq> []"
    by (auto simp: analyzeGesture_def)
  then have "0 < length hands" by simp
  with assms u show ?thesis
    unfolding processVideoFrame_def by (simp only: not_True_eq_False if_False if_True
        prod.case sum.case option.case)
       simp
qed

text \<open>The dynamic classifier on the two example rows.\<close>

lemma replicate_num: "replicate (numeral k) a = a # replicate (pred_numeral k) a"
  by (simp add: numeral_eq_Suc)

lemma pixelOffsets_104: "pixelOffsets 104 = [0, 4, 8, 12, 16, 20, 24, 28, 32, 36, 40, 44, 48, 52, 56, 60, 64, 68, 72, 76, 80, 84, 88, 92, 96, 100]"
  by code_simp

lemma length_halfLitRow: "length (data halfLitRow) = 104"
  by (simp add: halfLitRow_def replicate_num)

lemma motionVectors_halfLitRow:
  "motionVectors 50 halfLitRow darkRow =
     \<lparr>motionMagnitude = 1040, horizontalMotion = 800, verticalMotion = - 1040\<rparr>"
  unfolding motionVectors_def length_halfLitRow pixelOffsets_104
  by (simp add: darkRow_def halfLitRow_def replicate_num motionStep_def
      grayAt_def channel_def horizontalStep_def verticalStep_def Let_def)

lemma dynamic_halfLitRow:
  "analyzeDynamicGesture 50 [darkRow, darkRow, halfLitRow] =
     Some \<lparr>gesture = ''Swipe Up'', confidence = 70.4\<rparr>"
  by (simp add: analyzeDynamicGesture_def motionVectors_halfLitRow classifyMotion_def)

text \<open>
  Claim C10. Every result of the static, the dynamic and the tracking classifier, and
  so every result of \<open>analyzeGesture\<close>, carries one of the twelve known labels;
  \<open>Unknown\<close> is none of them, so the sentinel check of \<open>processVideoFrame\<close> never
  rejects a classification: while recording, every result of \<open>analyzeGesture\<close> is
  accepted.
\<close>

theorem classifier_labels_known:
  "(analyzeStaticGesture points = Inr (Some r1) \<longrightarrow> gesture r1 \<in> knownLabels) \<and>
   (analyzeDynamicGesture threshold frames = Some r2 \<longrightarrow> gesture r2 \<in> knownLabels) \<and>
   (analyzeTrackingGesture points' = Inr (Some r3) \<longrightarrow> gesture r3 \<in> knownLabels) \<and>
   (fst (analyzeGesture seen s hands fd) = Inr (Some r4) \<longrightarrow>
      gesture r4 \<in> knownLabels \<and> gesture r4 \<noteq> ''Unknown'') \<and>
   (recording \<and> analyzeGesture seen' t detected None = (Inr (Some r5), t') \<longrightarrow>
      processVideoFrame recording seen' detected now t = acceptGesture r5 now t') \<and>
   ''Unknown'' \<notin> knownLabels"
  using static_label dynamic_label tracking_label analyzeGesture_label unknown_not_known
    processVideoFrame_accepts
  by metis

theorem classifier_labels_known_witness:
  "analyzeStaticGesture palmWithCircle = Inr (Some \<lparr>gesture = ''Open Palm'', confidence = 83\<rparr>) \<and>
   analyzeDynamicGesture 50 [darkRow, darkRow, halfLitRow]
     = Some \<lparr>gesture = ''Swipe Up'', confidence = 70.4\<rparr> \<and>
   analyzeTrackingGesture zeroHand = Inr (Some \<lparr>gesture = ''Pinch'', confidence = 87\<rparr>) \<and>
   isRecording recordingSession \<and>
   analyzeGesture recordingSession recordingSession [\<lparr>landmarks = Some zeroHand\<rparr>] None
     = (Inr (Some \<lparr>gesture = ''OK Hand'', confidence = 90\<rparr>), recordingSession) \<and>
   processVideoFrame (isRecording recordingSession) recordingSession
       [\<lparr>landmarks = Some zeroHand\<rparr>] 7 recordingSession
     = acceptGesture \<lparr>gesture = ''OK Hand'', confidence = 90\<rparr> 7 recordingSession \<and>
   {''Open Palm'', ''Swipe Up'', ''Pinch'', ''OK Hand''} \<subseteq> knownLabels"
proof -
  let ?ok = "\<lparr>gesture = ''OK Hand'', confidence = 90\<rparr>"
  have rec: "isRecording recordingSession"
    by (simp add: recordingSession_def)
  have g: "analyzeGesture recordingSession recordingSession [\<lparr>landmarks = Some zeroHand\<rparr>] None
     = (Inr (Some ?ok), recordingSession)"
    by (simp add: analyzeGesture_def arbitrate_def static_zeroHand bindE_def Let_def
        recordingSession_def initialSession_def winnerResult_def storeFrame_def learn_def)
  from classifier_labels_known [where points = palmWithCircle
      and ?r1.0 = "\<lparr>gesture = ''Open Palm'', confidence = 83\<rparr>"
      and threshold = 50 and frames = "[darkRow, darkRow, halfLitRow]"
      and ?r2.0 = "\<lparr>gesture = ''Swipe Up'', confidence = 70.4\<rparr>"
      and points' = zeroHand and ?r3.0 = "\<lparr>gesture = ''Pinch'', confidence = 87\<rparr>"
      and seen = recordingSession and s = recordingSession
      and hands = "[\<lparr>landmarks = Some zeroHand\<rparr>]" and fd = None and ?r4.0 = ?ok
      and recording = "isRecording recordingSession" and seen' = recordingSession
      and t = recordingSession and detected = "[\<lparr>landmarks = Some zeroHand\<rparr>]"
      and ?r5.0 = ?ok and t' = recordingSession and now = 7]
    static_palmWithCircle dynamic_halfLitRow tracking_zeroHand g rec
  show ?thesis by simp
qed

section \<open>The dynamic classifier on the motion scenario\<close>

text \<open>The example frames are instances of the scenario.\<close>

lemma shifted_rows: "rightHalfShifted darkRow halfLitRow"
  by code_simp

lemma shifted_frames: "rightHalfShifted darkFrame halfLitFrame"
  by code_simp

text \<open>The band comparisons of the direction analysis, on natural numbers.\<close>

lemma real_band_high: "(real i > real w * 0.6) = (3 * w < 5 * i)"
proof -
  have "(real i > real w * 0.6) = (real (3 * w) < real (5 * i))"
    by (simp add: mult.commute)
  then show ?thesis
    by (simp only: of_nat_less_iff)
qed

lemma real_band_low: "(real i < real w * 0.4) = (5 * i < 2 * w)"
proof -
  have "(real i < real w * 0.4) = (real (5 * i) < real (2 * w))"
    by (simp add: mult.commute)
  then show ?thesis
    by (simp only: of_nat_less_iff)
qed

lemma pixelOffsets_frame: "pixelOffsets (4 * n) = map (\<lambda>k. 4 * k) [0..<n]"
  by (simp add: pixelOffsets_def)


text \<open>A loop whose steps add to the three accumulators computes three sums.\<close>

lemma foldl_motion_sums:
  assumes "\<And>k m. k \<in> set ks \<Longrightarrow> step m (4 * k) =
      \<lparr>motionMagnitude = motionMagnitude m + a k,
       horizontalMotion = horizontalMotion m + b k,
       verticalMotion = verticalMotion m + c k\<rparr>"
  shows "foldl step m (map (\<lambda>k. 4 * k) ks) =
      \<lparr>motionMagnitude = motionMagnitude m + sum_list (map a ks),
       horizontalMotion = horizontalMotion m + sum_list (map b ks),
       verticalMotion = verticalMotion m + sum_list (map c ks)\<rparr>"
  using assms
proof (induction ks arbitrary: m)
  case Nil
  then show ?case by simp
next
  case (Cons k ks)
  have "foldl step m (map (\<lambda>k. 4 * k) (k # ks)) = foldl step (step m (4 * k)) (map (\<lambda>k. 4 * k) ks)"
    by simp
  also have "\<dots> = foldl step \<lparr>motionMagnitude = motionMagnitude m + a k,
       horizontalMotion = horizontalMotion m + b k,
       verticalMotion = verticalMotion m + c k\<rparr> (map (\<lambda>k. 4 * k) ks)"
    using Cons.prems [of k m] by simp
  also have "\<dots> = \<lparr>motionMagnitude = motionMagnitude m + a k + sum_list (map a ks),
       horizontalMotion = horizontalMotion m + b k + sum_list (map b ks),
       verticalMotion = verticalMotion m + c k + sum_list (map c ks)\<rparr>"
    using Cons.IH [of "\<lparr>motionMagnitude = motionMagnitude m + a k,
       horizontalMotion = horizontalMotion m + b k,
       verticalMotion = verticalMotion m + c k\<rparr>"] Cons.prems by simp
  finally show ?case by (simp add: add.assoc)
qed

text \<open>A sum over the pixels of a frame, row by row, is a sum over rows of sums over columns.\<close>

lemma sum_pixels:
  fixes F :: "nat \<Rightarrow> nat \<Rightarrow> real"
  assumes "0 < w"
  shows "(\<Sum>k = 0..<w * h. F (k mod w) (k div w)) = (\<Sum>row = 0..<h. \<Sum>col = 0..<w. F col row)"
proof (induction h)
  case 0
  then show ?case by simp
next
  case (Suc h)
  have split: "{0..<w * Suc h} = {0..<w * h} \<union> {w * h..<w * h + w}"
    by auto
  have "(\<Sum>k = 0..<w * Suc h. F (k mod w) (k div w))
      = (\<Sum>k = 0..<w * h. F (k mod w) (k div w)) + (\<Sum>k = w * h..<w * h + w. F (k mod w) (k div w))"
    unfolding split by (rule sum.union_disjoint) auto
  also have "(\<Sum>k = w * h..<w * h + w. F (k mod w) (k div w))
      = (\<Sum>col = 0..<w. F ((col + w * h) mod w) ((col + w * h) div w))"
    using sum.shift_bounds_nat_ivl [of "\<lambda>k. F (k mod w) (k div w)" 0 "w * h" w]
    by (simp add: add.commute)
  also have "\<dots> = (\<Sum>col = 0..<w. F col h)"
    using assms by (intro sum.cong) auto
  finally show ?case
    using Suc by simp
qed

text \<open>Counting the columns from a threshold on.\<close>

lemma sum_from:
  fixes c :: real
  shows "(\<Sum>i = 0..<n. if t \<le> i then c else 0) = c * real (n - t)"
proof (induction n)
  case 0
  then show ?case by simp
next
  case (Suc n)
  then show ?case
    by (cases "t \<le> n") (simp_all add: Suc_diff_le algebra_simps)
qed


lemma channel_in: "i < length d \<Longrightarrow> channel d i = Some (real (unat (d ! i)))"
  by (simp add: channel_def)

lemma grayAt_in:
  "i + 2 < length d \<Longrightarrow>
   grayAt d i = Some ((real (unat (d ! i)) + real (unat (d ! (i + 1))) + real (unat (d ! (i + 2)))) / 3)"
  by (simp add: grayAt_def channel_in)

text \<open>One step of the loop on the frames of the scenario.\<close>

lemma shifted_step:
  assumes sh: "rightHalfShifted previous current"
    and k: "k < width current * height current"
  shows "motionStep 50 current previous m (4 * k) =
      \<lparr>motionMagnitude = motionMagnitude m
          + (if width current \<le> 2 * (k mod width current) then 80 else 0),
       horizontalMotion = horizontalMotion m
          + (if 3 * width current < 5 * (k mod width current) then 80 else 0),
       verticalMotion = verticalMotion m
          + (if width current \<le> 2 * (k mod width current)
             then (if 3 * height current < 5 * (k div width current) then 80 else 0)
                  - (if 5 * (k div width current) < 2 * height current then 80 else 0)
             else 0)\<rparr>"
proof -
  let ?w = "width current" and ?h = "height current"
  let ?D = "data current" and ?P = "data previous"
  let ?s = "if ?w \<le> 2 * (k mod ?w) then 80 else 0 :: nat"
  from sh have wf: "0 < ?w" "length ?D = 4 * ?w * ?h" "length ?P = 4 * ?w * ?h"
    by (simp_all add: rightHalfShifted_def wellFormed_def)
  from sh k have by3: "unat (?D ! (4 * k + c)) = unat (?P ! (4 * k + c)) + ?s" if "c < 3" for c
    using that by (simp add: rightHalfShifted_def)
  have b0: "unat (?D ! (4 * k)) = unat (?P ! (4 * k)) + ?s"
    using by3 [of 0] by simp
  have b1: "unat (?D ! (4 * k + 1)) = unat (?P ! (4 * k + 1)) + ?s"
    using by3 [of 1] by simp
  have b2: "unat (?D ! (4 * k + 2)) = unat (?P ! (4 * k + 2)) + ?s"
    using by3 [of 2] by simp
  have inside: "4 * k + 2 < 4 * ?w * ?h"
    using k by simp
  have "grayAt ?D (4 * k) = Some ((real (unat (?D ! (4 * k))) + real (unat (?D ! (4 * k + 1)))
        + real (unat (?D ! (4 * k + 2)))) / 3)"
    using inside by (intro grayAt_in) (simp add: wf)
  also have "\<dots> = Some ((real (unat (?P ! (4 * k))) + real (unat (?P ! (4 * k + 1)))
        + real (unat (?P ! (4 * k + 2)))) / 3 + real ?s)"
    unfolding b0 b1 b2 by (simp add: add_divide_distrib)
  finally have gc: "grayAt ?D (4 * k) = Some ((real (unat (?P ! (4 * k)))
        + real (unat (?P ! (4 * k + 1))) + real (unat (?P ! (4 * k + 2)))) / 3 + real ?s)" .
  have gp: "grayAt ?P (4 * k) = Some ((real (unat (?P ! (4 * k))) + real (unat (?P ! (4 * k + 1)))
        + real (unat (?P ! (4 * k + 2)))) / 3)"
    using inside by (intro grayAt_in) (simp add: wf)
  show ?thesis
  proof (cases "?w \<le> 2 * (k mod ?w)")
    case True
    then have low: "\<not> 5 * (k mod ?w) < 2 * ?w"
      using wf(1) by arith
    have both: "\<not> (3 * ?h < 5 * (k div ?w) \<and> 5 * (k div ?w) < 2 * ?h)"
      by arith
    show ?thesis
      using True low both wf(1)
      by (simp add: motionStep_def gc gp horizontalStep_def verticalStep_def Let_def
          real_band_high real_band_low)
  next
    case False
    then have "\<not> 3 * ?w < 5 * (k mod ?w)"
      by arith
    with False show ?thesis
      by (simp add: motionStep_def gc gp)
  qed
qed


lemma sum_right_half:
  fixes c :: real
  shows "(\<Sum>col = 0..<w. if w \<le> 2 * col then c else 0) = c * real (w div 2)"
proof -
  have "(w \<le> 2 * col) = ((w + 1) div 2 \<le> col)" for col :: nat
    by arith
  moreover have "w - (w + 1) div 2 = w div 2"
    by arith
  ultimately show ?thesis
    using sum_from [of "(w + 1) div 2" c w] by simp
qed

lemma sum_right_band:
  "(\<Sum>col = 0..<w. if 3 * w < 5 * col then 80 else 0 :: real) = 80 * real (rightBand w)"
proof -
  have "(3 * w < 5 * col) = (3 * w div 5 + 1 \<le> col)" for col :: nat
    by arith
  moreover have "w - (3 * w div 5 + 1) = rightBand w"
    by (simp add: rightBand_def)
  ultimately show ?thesis
    using sum_from [of "3 * w div 5 + 1" 80 w] by simp
qed

lemma sum_rows:
  fixes h :: nat
  assumes "0 < h"
  shows "(\<Sum>row = 0..<h. (if 3 * h < 5 * row then 80 else 0)
                         - (if 5 * row < 2 * h then 80 else 0 :: real)) = - 80"
proof -
  define t where "t = Suc (3 * h div 5)"
  define u where "u = (2 * h + 4) div 5"
  have hi: "(if 3 * h < 5 * row then 80 else 0 :: real) = (if t \<le> row then 80 else 0)"
    for row :: nat
  proof -
    have "(3 * h < 5 * row) = (t \<le> row)"
      unfolding t_def by arith
    then show ?thesis by simp
  qed
  have lo: "(if 5 * row < 2 * h then 80 else 0 :: real) = 80 - (if u \<le> row then 80 else 0)"
    for row :: nat
  proof -
    have "(5 * row < 2 * h) = (\<not> u \<le> row)"
      unfolding u_def by arith
    then show ?thesis by simp
  qed
  have up: "(\<Sum>row = 0..<h. if t \<le> row then 80 else 0 :: real) = 80 * real (h - t)"
    by (rule sum_from)
  have down: "(\<Sum>row = 0..<h. if u \<le> row then 80 else 0 :: real) = 80 * real (h - u)"
    by (rule sum_from)
  have const: "(\<Sum>row = 0..<h. 80 :: real) = 80 * real h"
    by simp
  have "h - t + (h - u) + 1 = h"
    using assms unfolding t_def u_def by arith
  then have "real (h - t + (h - u) + 1) = real h"
    by (rule arg_cong)
  then have n: "real (h - t) + real (h - u) + 1 = real h"
    by simp
  have "(\<Sum>row = 0..<h. (if 3 * h < 5 * row then 80 else 0)
                         - (if 5 * row < 2 * h then 80 else 0 :: real))
      = (\<Sum>row = 0..<h. (if t \<le> row then 80 else 0) - (80 - (if u \<le> row then 80 else 0 :: real)))"
    by (simp only: hi lo)
  also have "\<dots> = (\<Sum>row = 0..<h. if t \<le> row then 80 else 0 :: real)
        - ((\<Sum>row = 0..<h. 80 :: real) - (\<Sum>row = 0..<h. if u \<le> row then 80 else 0 :: real))"
    by (simp only: sum_subtractf)
  also have "\<dots> = 80 * real (h - t) - (80 * real h - 80 * real (h - u))"
    by (simp only: up down const)
  also have "\<dots> = - 80"
    using n by simp
  finally show ?thesis .
qed

text \<open>The motion vectors of the scenario, in closed form.\<close>

lemma shifted_motionVectors:
  assumes sh: "rightHalfShifted previous current"
  shows "motionVectors 50 current previous =
     \<lparr>motionMagnitude = 80 * real (height current * (width current div 2)),
      horizontalMotion = 80 * real (height current * rightBand (width current)),
      verticalMotion = - 80 * real (width current div 2)\<rparr>"
proof -
  let ?w = "width current" and ?h = "height current"
  let ?A = "\<lambda>col (row::nat). if ?w \<le> 2 * col then 80 else 0 :: real"
  let ?B = "\<lambda>col (row::nat). if 3 * ?w < 5 * col then 80 else 0 :: real"
  let ?G = "\<lambda>row. (if 3 * ?h < 5 * row then 80 else 0) - (if 5 * row < 2 * ?h then 80 else 0 :: real)"
  let ?C = "\<lambda>col row. if ?w \<le> 2 * col then ?G row else 0"
  from sh have wf: "0 < ?w" "0 < ?h" "length (data current) = 4 * (?w * ?h)"
    by (simp_all add: rightHalfShifted_def wellFormed_def)
  have "motionVectors 50 current previous =
      foldl (motionStep 50 current previous)
        \<lparr>motionMagnitude = 0, horizontalMotion = 0, verticalMotion = 0\<rparr>
        (map (\<lambda>k. 4 * k) [0..<?w * ?h])"
    by (simp only: motionVectors_def wf(3) pixelOffsets_frame)
  also have "\<dots> =
      \<lparr>motionMagnitude = sum_list (map (\<lambda>k. ?A (k mod ?w) (k div ?w)) [0..<?w * ?h]),
       horizontalMotion = sum_list (map (\<lambda>k. ?B (k mod ?w) (k div ?w)) [0..<?w * ?h]),
       verticalMotion = sum_list (map (\<lambda>k. ?C (k mod ?w) (k div ?w)) [0..<?w * ?h])\<rparr>"
    using foldl_motion_sums [where ks = "[0..<?w * ?h]" and step = "motionStep 50 current previous"
        and a = "\<lambda>k. ?A (k mod ?w) (k div ?w)" and b = "\<lambda>k. ?B (k mod ?w) (k div ?w)"
        and c = "\<lambda>k. ?C (k mod ?w) (k div ?w)"
        and m = "\<lparr>motionMagnitude = 0, horizontalMotion = 0, verticalMotion = 0\<rparr>"]
      shifted_step [OF sh]
    by simp
  also have "sum_list (map (\<lambda>k. ?A (k mod ?w) (k div ?w)) [0..<?w * ?h])
      = (\<Sum>row = 0..<?h. \<Sum>col = 0..<?w. ?A col row)"
    using sum_pixels [OF wf(1), where h = ?h and F = ?A] by (simp add: interv_sum_list_conv_sum_set_nat)
  also have "sum_list (map (\<lambda>k. ?B (k mod ?w) (k div ?w)) [0..<?w * ?h])
      = (\<Sum>row = 0..<?h. \<Sum>col = 0..<?w. ?B col row)"
    using sum_pixels [OF wf(1), where h = ?h and F = ?B] by (simp add: interv_sum_list_conv_sum_set_nat)
  also have "sum_list (map (\<lambda>k. ?C (k mod ?w) (k div ?w)) [0..<?w * ?h])
      = (\<Sum>row = 0..<?h. \<Sum>col = 0..<?w. ?C col row)"
    using sum_pixels [OF wf(1), where h = ?h and F = ?C] by (simp add: interv_sum_list_conv_sum_set_nat)
  also have "(\<Sum>row = 0..<?h. \<Sum>col = 0..<?w. ?A col row) = 80 * real (?h * (?w div 2))"
    by (simp add: sum_right_half)
  also have "(\<Sum>row = 0..<?h. \<Sum>col = 0..<?w. ?B col row) = 80 * real (?h * rightBand ?w)"
    by (simp add: sum_right_band)
  also have "(\<Sum>row = 0..<?h. \<Sum>col = 0..<?w. ?C col row) = - 80 * real (?w div 2)"
  proof -
    have "(\<Sum>row = 0..<?h. \<Sum>col = 0..<?w. ?C col row) = (\<Sum>row = 0..<?h. ?G row * real (?w div 2))"
      by (simp only: sum_right_half)
    also have "\<dots> = (\<Sum>row = 0..<?h. ?G row) * real (?w div 2)"
      by (rule sum_distrib_right [symmetric])
    also have "\<dots> = - 80 * real (?w div 2)"
      by (simp only: sum_rows [OF wf(2)])
    finally show ?thesis .
  qed
  finally show ?thesis by simp
qed


lemma latest_frames:
  "(older @ [previous, current]) ! (length (older @ [previous, current]) - 1) = current"
  "(older @ [previous, current]) ! (length (older @ [previous, current]) - 2) = previous"
  by (simp_all add: nth_append)

lemma dynamic_general:
  assumes "3 \<le> length frames"
  shows "analyzeDynamicGesture threshold frames =
       (let m = motionVectors threshold (last frames) (frames ! (length frames - 2))
        in if motionMagnitude m > 1000
           then Some \<lparr>gesture =
                        (if \<bar>horizontalMotion m\<bar> > \<bar>verticalMotion m\<bar>
                         then (if horizontalMotion m > 0 then ''Swipe Right'' else ''Swipe Left'')
                         else (if verticalMotion m > 0 then ''Swipe Down'' else ''Swipe Up'')),
                      confidence = min 85 (60 + motionMagnitude m / 100)\<rparr>
           else None)"
proof -
  from assms have "frames \<noteq> []" by auto
  then have l: "frames ! (length frames - 1) = last frames"
    by (simp add: last_conv_nth)
  from assms have n: "\<not> length frames < 3" by simp
  show ?thesis
    unfolding analyzeDynamicGesture_def classifyMotion_def Let_def l
    by (simp only: n if_False split: if_split) simp
qed

lemma wide_frames_right:
  assumes "7 \<le> w" and "2 \<le> h"
  shows "w div 2 < h * rightBand w"
proof -
  have "w div 2 < 2 * rightBand w"
    using assms(1) unfolding rightBand_def by arith
  also have "\<dots> \<le> h * rightBand w"
    using assms(2) by (rule mult_le_mono1)
  finally show ?thesis .
qed

lemma dynamic_shifted:
  assumes sh: "rightHalfShifted previous current"
    and big: "1000 < motionMagnitude (motionVectors 50 current previous)"
    and old: "older \<noteq> []"
  shows "analyzeDynamicGesture 50 (older @ [previous, current]) =
      Some \<lparr>gesture = (if width current div 2 < height current * rightBand (width current)
                        then ''Swipe Right'' else ''Swipe Up''),
            confidence = min 85 (60 + 80 * real (height current * (width current div 2)) / 100)\<rparr>"
proof -
  let ?w = "width current" and ?h = "height current"
  let ?M = "80 * real (?h * (?w div 2))"
  let ?H = "80 * real (?h * rightBand ?w)" and ?V = "- 80 * real (?w div 2)"
  note mv = shifted_motionVectors [OF sh]
  from big have M: "1000 < ?M"
    by (simp add: mv)
  from old have n: "\<not> length (older @ [previous, current]) < 3"
    by (cases older) simp_all
  have dyn: "analyzeDynamicGesture 50 (older @ [previous, current]) =
      classifyMotion \<lparr>motionMagnitude = ?M, horizontalMotion = ?H, verticalMotion = ?V\<rparr>"
    unfolding analyzeDynamicGesture_def Let_def latest_frames mv
    using n by (simp only: if_False)
  show ?thesis
  proof (cases "?w div 2 < ?h * rightBand ?w")
    case True
    then have "real (?w div 2) < real (?h * rightBand ?w)"
      by (simp only: of_nat_less_iff)
    then have "\<bar>?V\<bar> < \<bar>?H\<bar>" and "0 < ?H"
      by simp_all
    with M True show ?thesis
      unfolding dyn classifyMotion_def by simp
  next
    case False
    then have "real (?h * rightBand ?w) \<le> real (?w div 2)"
      by (simp only: of_nat_le_iff not_less)
    then have "\<not> \<bar>?V\<bar> < \<bar>?H\<bar>" and "\<not> 0 < ?V"
      by simp_all
    with M False show ?thesis
      unfolding dyn classifyMotion_def by simp
  qed
qed

text \<open>
  Claim C4, as the code has it. With at least 3 buffered frames the dynamic classifier
  answers a swipe exactly when the motion magnitude of the two latest frames exceeds
  1000: the horizontal axis when the horizontal accumulator is strictly larger in
  absolute value, else the vertical one, \<open>Right\<close> or \<open>Down\<close> when the accumulator of
  that axis is positive, else \<open>Left\<close> or \<open>Up\<close>, with confidence
  \<open>min(85, 60 + magnitude / 100)\<close>; otherwise it answers \<open>null\<close>. In the scenario
  of a luminance shift of 80 on the right half of the columns, at threshold 50 and
  with magnitude above 1000, the answer has confidence at most 85 and is
  \<open>Swipe Right\<close> exactly when \<open>height * rightBand width\<close> exceeds \<open>width div 2\<close>, as
  it does for every frame at least 7 pixels wide and 2 pixels high; otherwise it is
  \<open>Swipe Up\<close>, every moving pixel of the top band counting upwards.
\<close>

theorem dynamic_swipe_classification:
  "3 \<le> length frames \<Longrightarrow>
     analyzeDynamicGesture threshold frames =
       (let m = motionVectors threshold (last frames) (frames ! (length frames - 2))
        in if motionMagnitude m > 1000
           then Some \<lparr>gesture =
                        (if \<bar>horizontalMotion m\<bar> > \<bar>verticalMotion m\<bar>
                         then (if horizontalMotion m > 0 then ''Swipe Right'' else ''Swipe Left'')
                         else (if verticalMotion m > 0 then ''Swipe Down'' else ''Swipe Up'')),
                      confidence = min 85 (60 + motionMagnitude m / 100)\<rparr>
           else None) \<and>
     (frames = older @ [previous, current] \<and> rightHalfShifted previous current \<and>
      1000 < motionMagnitude (motionVectors 50 current previous) \<longrightarrow>
        analyzeDynamicGesture 50 frames =
          Some \<lparr>gesture = (if width current div 2 < height current * rightBand (width current)
                            then ''Swipe Right'' else ''Swipe Up''),
                confidence = min 85 (60 + 80 * real (height current * (width current div 2)) / 100)\<rparr> \<and>
        min 85 (60 + 80 * real (height current * (width current div 2)) / 100) \<le> (85 :: real) \<and>
        (7 \<le> width current \<and> 2 \<le> height current \<longrightarrow>
           width current div 2 < height current * rightBand (width current)))"
proof (intro conjI impI)
  assume len: "3 \<le> length frames"
  then show "analyzeDynamicGesture threshold frames =
       (let m = motionVectors threshold (last frames) (frames ! (length frames - 2))
        in if motionMagnitude m > 1000
           then Some \<lparr>gesture =
                        (if \<bar>horizontalMotion m\<bar> > \<bar>verticalMotion m\<bar>
                         then (if horizontalMotion m > 0 then ''Swipe Right'' else ''Swipe Left'')
                         else (if verticalMotion m > 0 then ''Swipe Down'' else ''Swipe Up'')),
                      confidence = min 85 (60 + motionMagnitude m / 100)\<rparr>
           else None)"
    by (rule dynamic_general)
  show "min 85 (60 + 80 * real (height current * (width current div 2)) / 100) \<le> (85 :: real)"
    by simp
  show "width current div 2 < height current * rightBand (width current)"
    if "7 \<le> width current \<and> 2 \<le> height current"
    using that by (simp add: wide_frames_right)
  assume a: "frames = older @ [previous, current] \<and> rightHalfShifted previous current \<and>
      1000 < motionMagnitude (motionVectors 50 current previous)"
  with len have "older \<noteq> []" by auto
  with a show "analyzeDynamicGesture 50 frames =
          Some \<lparr>gesture = (if width current div 2 < height current * rightBand (width current)
                            then ''Swipe Right'' else ''Swipe Up''),
                confidence = min 85 (60 + 80 * real (height current * (width current div 2)) / 100)\<rparr>"
    by (simp add: dynamic_shifted)
qed

lemma frame_sizes:
  "width halfLitFrame = 14" "height halfLitFrame = 2" "width halfLitRow = 26" "height halfLitRow = 1"
  by (simp_all add: halfLitFrame_def halfLitRow_def)

lemma motionVectors_halfLitFrame:
  "motionVectors 50 halfLitFrame darkFrame =
     \<lparr>motionMagnitude = 1120, horizontalMotion = 800, verticalMotion = - 560\<rparr>"
  by (simp add: shifted_motionVectors [OF shifted_frames] frame_sizes rightBand_def)

theorem dynamic_swipe_classification_witness:
  "3 \<le> length [darkFrame, darkFrame, halfLitFrame] \<and>
   rightHalfShifted darkFrame halfLitFrame \<and>
   1000 < motionMagnitude (motionVectors 50 halfLitFrame darkFrame) \<and>
   7 \<le> width halfLitFrame \<and> 2 \<le> height halfLitFrame \<and>
   analyzeDynamicGesture 50 [darkFrame, darkFrame, halfLitFrame] =
     Some \<lparr>gesture = ''Swipe Right'', confidence = 71.2\<rparr>"
proof -
  have l: "3 \<le> length [darkFrame, darkFrame, halfLitFrame]"
    by simp
  have b: "1000 < motionMagnitude (motionVectors 50 halfLitFrame darkFrame)"
    by (simp add: motionVectors_halfLitFrame)
  have h: "[darkFrame, darkFrame, halfLitFrame] = [darkFrame] @ [darkFrame, halfLitFrame] \<and>
      rightHalfShifted darkFrame halfLitFrame \<and>
      1000 < motionMagnitude (motionVectors 50 halfLitFrame darkFrame)"
    using shifted_frames b by simp
  note t = dynamic_swipe_classification [OF l, of 50 "[darkFrame]" darkFrame halfLitFrame]
  note r = t [THEN conjunct2, THEN mp, OF h, THEN conjunct1]
  from r have "analyzeDynamicGesture 50 [darkFrame, darkFrame, halfLitFrame] =
      Some \<lparr>gesture = ''Swipe Right'', confidence = 71.2\<rparr>"
    by (simp add: frame_sizes rightBand_def)
  with l shifted_frames b show ?thesis
    by (simp add: frame_sizes)
qed

text \<open>
  A single row of 26 pixels: the shift moves 13 pixels, 10 of them in the right band
  and all of them in the top band, and the answer is \<open>Swipe Up\<close>.
\<close>

theorem swipe_right_scenario_counterexample:
  "rightHalfShifted darkRow halfLitRow \<and>
   1000 < motionMagnitude (motionVectors 50 halfLitRow darkRow) \<and>
   analyzeDynamicGesture 50 [darkRow, darkRow, halfLitRow] =
     Some \<lparr>gesture = ''Swipe Up'', confidence = 70.4\<rparr>"
proof -
  have "motionVectors 50 halfLitRow darkRow =
     \<lparr>motionMagnitude = 1040, horizontalMotion = 800, verticalMotion = - 1040\<rparr>"
    by (simp add: shifted_motionVectors [OF shifted_rows] frame_sizes rightBand_def)
  then show ?thesis
    using shifted_rows by (simp add: analyzeDynamicGesture_def classifyMotion_def)
qed

end
